theory Spec2Isabelle
  imports Main "HOL-Library.Sublist"
begin

section \<open>Python values, exceptions and the state of a run\<close>

text \<open>
  The module \<^verbatim>\<open>arch.py\<close> handles three kinds of Python values: strings, the tuple that
  \<^verbatim>\<open>platform.architecture()\<close> returns, and (nowhere built by the module, but the value
  that "null" would be) \<^verbatim>\<open>None\<close>. A Python string is a \<open>string\<close>, one \<open>char\<close> for
  each code point; the model covers the code points below 256.
\<close>

datatype pyval = PNone | PStr string | PTuple "pyval list"

text \<open>
  The exceptions the statements of the module can raise: a missing dictionary key, a
  sequence index out of range, a subscript on a value that has none, and whatever a
  query of the \<^verbatim>\<open>platform\<close> module raises (kept opaque, by its name).
\<close>

datatype error = KeyError string | IndexError | TypeError | PlatformError string

type_synonym dict = "string \<rightharpoonup> pyval"

type_synonym ref = nat

text \<open>
  The host, as the two queries of Python's \<^verbatim>\<open>platform\<close> module see it.
  \<^verbatim>\<open>platform.architecture()\<close> is documented to return a tuple \<^verbatim>\<open>(bits, linkage)\<close> of two
  strings and \<^verbatim>\<open>platform.machine()\<close> a string (empty when the machine type cannot be
  determined). A query either returns its value or raises an exception, of which the
  model keeps the name.
\<close>

datatype 'a query = Returns 'a | Raises string

record platform =
  architecture :: "(string \<times> string) query"
  machine :: "string query"

text \<open>
  A run reads the host, allocates dictionaries and writes to standard output. The heap
  holds the dictionary objects in allocation order: a reference is an index into it, and
  a dictionary literal allocates at the end. \<open>stdout\<close> is the text written so far, as
  handed to \<^verbatim>\<open>print\<close>; the stream takes every write (a closed or broken stream is not
  modelled).
\<close>

record world =
  host :: platform
  heap :: "dict list"
  stdout :: string

section \<open>The Python operations the module uses\<close>

definition dict_getitem :: "dict \<Rightarrow> string \<Rightarrow> error + pyval" where
  \<comment> \<open>\<^verbatim>\<open>d[k]\<close>\<close>
  "dict_getitem d k = (case d k of None \<Rightarrow> Inl (KeyError k) | Some v \<Rightarrow> Inr v)"

definition seq_position :: "int \<Rightarrow> nat \<Rightarrow> nat option" where
  \<comment> \<open>the position an index denotes in a sequence of length \<open>n\<close>; a negative index counts
      from the end\<close>
  "seq_position i n =
     (if 0 \<le> i \<and> i < int n then Some (nat i)
      else if i < 0 \<and> 0 \<le> i + int n then Some (nat (i + int n))
      else None)"

fun getitem :: "pyval \<Rightarrow> int \<Rightarrow> error + pyval" where
  \<comment> \<open>\<^verbatim>\<open>v[i]\<close> for an integer \<open>i\<close>\<close>
  "getitem PNone i = Inl TypeError"
| "getitem (PStr s) i =
     (case seq_position i (length s) of
        None \<Rightarrow> Inl IndexError
      | Some k \<Rightarrow> Inr (PStr [s ! k]))"
| "getitem (PTuple xs) i =
     (case seq_position i (length xs) of
        None \<Rightarrow> Inl IndexError
      | Some k \<Rightarrow> Inr (xs ! k))"

subsection \<open>Formatting a value in an f-string\<close>

definition backslash :: char where
  "backslash = CHR 0x5C"

definition hexdigits :: string where
  "hexdigits = ''0123456789abcdef''"

definition hex_escape :: "char \<Rightarrow> string" where
  \<comment> \<open>\<^verbatim>\<open>\xhh\<close>\<close>
  "hex_escape c =
     [backslash, CHR ''x'', hexdigits ! (of_char c div 16), hexdigits ! (of_char c mod 16)]"

definition printable :: "char \<Rightarrow> bool" where
  \<comment> \<open>\<^verbatim>\<open>str.isprintable\<close> on one code point below 256: not a control character
      (0-31, 127-159), not the no-break space (160), not the soft hyphen (173)\<close>
  "printable c = ((32 \<le> (of_char c :: nat) \<and> (of_char c :: nat) < 127) \<or>
                  (161 \<le> (of_char c :: nat) \<and> (of_char c :: nat) \<noteq> 173))"

definition repr_char :: "char \<Rightarrow> char \<Rightarrow> string" where
  "repr_char quote c =
     (if c = quote \<or> c = backslash then [backslash, c]
      else if c = CHR 0x09 then [backslash, CHR ''t'']
      else if c = CHR 0x0A then [backslash, CHR ''n'']
      else if c = CHR 0x0D then [backslash, CHR ''r'']
      else if printable c then [c]
      else hex_escape c)"

definition str_repr :: "string \<Rightarrow> string" where
  \<comment> \<open>\<^verbatim>\<open>repr(s)\<close>: single quotes, unless the string has a single quote and no double
      quote\<close>
  "str_repr s =
     (let quote = (if CHR 0x27 \<in> set s \<and> CHR 0x22 \<notin> set s then CHR 0x22 else CHR 0x27)
      in [quote] @ concat (map (repr_char quote) s) @ [quote])"

fun join :: "string \<Rightarrow> string list \<Rightarrow> string" where
  "join sep [] = []"
| "join sep [s] = s"
| "join sep (s # t # ss) = s @ sep @ join sep (t # ss)"

fun repr :: "pyval \<Rightarrow> string" where
  "repr PNone = ''None''"
| "repr (PStr s) = str_repr s"
| "repr (PTuple xs) =
     ''('' @ join '', '' (map repr xs) @ (if length xs = 1 then '','' else []) @ '')''"

fun format_value :: "pyval \<Rightarrow> string" where
  \<comment> \<open>a replacement field \<^verbatim>\<open>{v}\<close> with no format specification: a string is inserted as
      it is, any other value as \<^verbatim>\<open>str(v)\<close>, which for a tuple and for \<^verbatim>\<open>None\<close> is
      \<^verbatim>\<open>repr(v)\<close>\<close>
  "format_value (PStr s) = s"
| "format_value v = repr v"

subsection \<open>The colour codes and the output stream\<close>

definition ESC :: char where
  "ESC = CHR 0x1B"

definition newline :: char where
  "newline = CHR 0x0A"

definition Fore_GREEN :: string where
  \<comment> \<open>colorama's \<^verbatim>\<open>Fore.GREEN\<close>: select graphic rendition 32, green foreground\<close>
  "Fore_GREEN = ESC # ''[32m''"

definition Style_RESET_ALL :: string where
  \<comment> \<open>colorama's \<^verbatim>\<open>Style.RESET_ALL\<close>: select graphic rendition 0, all attributes off\<close>
  "Style_RESET_ALL = ESC # ''[0m''"

definition print :: "string \<Rightarrow> world \<Rightarrow> world" where
  \<comment> \<open>\<^verbatim>\<open>print(s)\<close>: the text and the line terminator\<close>
  "print s w = w\<lparr>stdout := stdout w @ s @ [newline]\<rparr>"

section \<open>The module\<close>

definition get_architecture_info :: "world \<Rightarrow> (error + ref) \<times> world" where
  "get_architecture_info w =
     (case architecture (host w) of
        Raises e \<Rightarrow> (Inl (PlatformError e), w)
      | Returns (bits, linkage) \<Rightarrow>
          (case machine (host w) of
             Raises e \<Rightarrow> (Inl (PlatformError e), w)
           | Returns m \<Rightarrow>
               (Inr (length (heap w)),
                w\<lparr>heap := heap w @
                   [[''architecture'' \<mapsto> PTuple [PStr bits, PStr linkage],
                     ''machine'' \<mapsto> PStr m]]\<rparr>)))"

definition architecture_line :: "dict \<Rightarrow> error + string" where
  \<comment> \<open>\<^verbatim>\<open>f'{Fore.GREEN}Architecture:{Style.RESET_ALL} {info["architecture"][0]}'\<close>\<close>
  "architecture_line info =
     (case dict_getitem info ''architecture'' of
        Inl e \<Rightarrow> Inl e
      | Inr a \<Rightarrow>
          (case getitem a 0 of
             Inl e \<Rightarrow> Inl e
           | Inr v \<Rightarrow>
               Inr (Fore_GREEN @ ''Architecture:'' @ Style_RESET_ALL @ '' '' @ format_value v)))"

definition machine_line :: "dict \<Rightarrow> error + string" where
  \<comment> \<open>\<^verbatim>\<open>f'{Fore.GREEN}Machine:{Style.RESET_ALL} {info["machine"]}'\<close>\<close>
  "machine_line info =
     (case dict_getitem info ''machine'' of
        Inl e \<Rightarrow> Inl e
      | Inr v \<Rightarrow> Inr (Fore_GREEN @ ''Machine:'' @ Style_RESET_ALL @ '' '' @ format_value v))"

definition report :: "ref \<Rightarrow> world \<Rightarrow> error option \<times> world" where
  \<comment> \<open>the two \<^verbatim>\<open>print\<close> statements of \<^verbatim>\<open>run\<close>, on the dictionary that \<open>info\<close> refers to;
      an exception leaves what was printed before it\<close>
  "report info w =
     (case architecture_line (heap w ! info) of
        Inl e \<Rightarrow> (Some e, w)
      | Inr l1 \<Rightarrow>
          (case machine_line (heap (print l1 w) ! info) of
             Inl e \<Rightarrow> (Some e, print l1 w)
           | Inr l2 \<Rightarrow> (None, print l2 (print l1 w))))"

definition run :: "world \<Rightarrow> error option \<times> world" where
  "run w =
     (case get_architecture_info w of
        (Inl e, w') \<Rightarrow> (Some e, w')
      | (Inr info, w') \<Rightarrow> report info w')"

section \<open>What a terminal shows\<close>

text \<open>
  A terminal does not show a control sequence: \<open>ESC [\<close>, parameter and intermediate bytes,
  and a final byte in the range 0x40 to 0x7E. \<open>displayed\<close> is the text that remains.
\<close>

fun displayed :: "string \<Rightarrow> string" and skip_csi :: "string \<Rightarrow> string" where
  "displayed [] = []"
| "displayed [c] = [c]"
| "displayed (c # d # cs) =
     (if c = ESC \<and> d = CHR ''['' then skip_csi cs else c # displayed (d # cs))"
| "skip_csi [] = []"
| "skip_csi (c # cs) =
     (if 64 \<le> (of_char c :: nat) \<and> (of_char c :: nat) \<le> 126 then displayed cs else skip_csi cs)"

section \<open>Vocabulary of the properties\<close>

definition field_is_str :: "dict \<Rightarrow> string \<Rightarrow> bool" where
  \<comment> \<open>the dictionary has the key and its value is a string\<close>
  "field_is_str d k = (case d k of Some (PStr s) \<Rightarrow> True | _ \<Rightarrow> False)"

definition collected :: "world \<Rightarrow> error + dict" where
  \<comment> \<open>what a caller of \<^verbatim>\<open>get_architecture_info()\<close> observes: the exception, or the fields of
      the dictionary returned\<close>
  "collected w =
     (case get_architecture_info w of
        (Inl e, w') \<Rightarrow> Inl e
      | (Inr info, w') \<Rightarrow> Inr (heap w' ! info))"

subsection \<open>Example hosts\<close>

definition linux_x86_64 :: world where
  "linux_x86_64 =
     \<lparr>host = \<lparr>architecture = Returns (''64bit'', ''ELF''), machine = Returns ''x86_64''\<rparr>,
      heap = [], stdout = []\<rparr>"

definition unknown_machine :: world where
  \<comment> \<open>a host on which neither the linkage nor the machine type can be determined\<close>
  "unknown_machine =
     \<lparr>host = \<lparr>architecture = Returns (''32bit'', []), machine = Returns []\<rparr>,
      heap = [], stdout = []\<rparr>"

definition windows_amd64 :: world where
  \<comment> \<open>as \<open>linux_x86_64\<close>, with another linkage\<close>
  "windows_amd64 =
     \<lparr>host = \<lparr>architecture = Returns (''64bit'', ''WindowsPE''), machine = Returns ''x86_64''\<rparr>,
      heap = [], stdout = []\<rparr>"

section \<open>Basic facts\<close>

lemma get_architecture_info_ok:
  "architecture (host w) = Returns (b, l) \<Longrightarrow> machine (host w) = Returns m \<Longrightarrow>
   get_architecture_info w =
     (Inr (length (heap w)),
      w\<lparr>heap := heap w @ [[''architecture'' \<mapsto> PTuple [PStr b, PStr l], ''machine'' \<mapsto> PStr m]]\<rparr>)"
  by (simp add: get_architecture_info_def)

lemma get_architecture_info_returns:
  assumes "get_architecture_info w = (Inr r, w')"
  obtains b l m where "architecture (host w) = Returns (b, l)" "machine (host w) = Returns m"
    "r = length (heap w)"
    "w' = w\<lparr>heap := heap w @ [[''architecture'' \<mapsto> PTuple [PStr b, PStr l], ''machine'' \<mapsto> PStr m]]\<rparr>"
  using assms unfolding get_architecture_info_def
  by (auto split: query.splits prod.splits)

lemma get_architecture_info_raises:
  assumes "get_architecture_info w = (Inl e, w')"
  shows "w' = w"
  using assms unfolding get_architecture_info_def
  by (auto split: query.splits prod.splits)

lemma architecture_line_pair:
  "info ''architecture'' = Some (PTuple (PStr b # xs)) \<Longrightarrow>
   architecture_line info = Inr (Fore_GREEN @ ''Architecture:'' @ Style_RESET_ALL @ '' '' @ b)"
  by (simp add: architecture_line_def dict_getitem_def seq_position_def)

lemma machine_line_str:
  "info ''machine'' = Some (PStr m) \<Longrightarrow>
   machine_line info = Inr (Fore_GREEN @ ''Machine:'' @ Style_RESET_ALL @ '' '' @ m)"
  by (simp add: machine_line_def dict_getitem_def)

lemma heap_print: "heap (print s w) = heap w"
  by (simp add: print_def)

lemma report_pair:
  assumes "(heap w ! r) ''architecture'' = Some (PTuple (PStr b # xs))"
    and "(heap w ! r) ''machine'' = Some (PStr m)"
  shows "report r w =
    (None, w\<lparr>stdout := stdout w @
        (Fore_GREEN @ ''Architecture:'' @ Style_RESET_ALL @ '' '' @ b) @ [newline] @
        (Fore_GREEN @ ''Machine:'' @ Style_RESET_ALL @ '' '' @ m) @ [newline]\<rparr>)"
  using assms
  by (simp add: report_def heap_print architecture_line_pair machine_line_str print_def)

lemma run_returns:
  assumes "architecture (host w) = Returns (b, l)" and "machine (host w) = Returns m"
  shows "run w =
    (None, w\<lparr>heap := heap w @ [[''architecture'' \<mapsto> PTuple [PStr b, PStr l], ''machine'' \<mapsto> PStr m]],
            stdout := stdout w @
        (Fore_GREEN @ ''Architecture:'' @ Style_RESET_ALL @ '' '' @ b) @ [newline] @
        (Fore_GREEN @ ''Machine:'' @ Style_RESET_ALL @ '' '' @ m) @ [newline]\<rparr>)"
  by (simp add: run_def get_architecture_info_ok [OF assms] report_pair)

lemma collected_returns:
  "architecture (host w) = Returns (b, l) \<Longrightarrow> machine (host w) = Returns m \<Longrightarrow>
   collected w = Inr [''architecture'' \<mapsto> PTuple [PStr b, PStr l], ''machine'' \<mapsto> PStr m]"
  by (simp add: collected_def get_architecture_info_ok)

lemma collected_host: "host w' = host w \<Longrightarrow> collected w' = collected w"
  by (simp add: collected_def get_architecture_info_def split: query.splits prod.splits)

lemma host_get_architecture_info: "host (snd (get_architecture_info w)) = host w"
  by (simp add: get_architecture_info_def split: query.splits prod.splits)

lemma host_print: "host (print s w) = host w"
  by (simp add: print_def)

lemma host_report: "host (snd (report r w)) = host w"
  by (simp add: report_def host_print split: sum.splits)

lemma host_run: "host (snd (run w)) = host w"
proof (cases "get_architecture_info w")
  case (Pair res w')
  then have "host w' = host w"
    using host_get_architecture_info [of w] by simp
  with Pair show ?thesis
    by (cases res) (simp_all add: run_def host_report)
qed

lemma architecture_line_Inr:
  assumes "architecture_line d = Inr l"
  obtains a v where "d ''architecture'' = Some a" "getitem a 0 = Inr v"
    "l = Fore_GREEN @ ''Architecture:'' @ Style_RESET_ALL @ '' '' @ format_value v"
  using assms unfolding architecture_line_def dict_getitem_def
  by (auto split: option.splits sum.splits)

lemma machine_line_Inr:
  assumes "machine_line d = Inr l"
  obtains v where "d ''machine'' = Some v"
    "l = Fore_GREEN @ ''Machine:'' @ Style_RESET_ALL @ '' '' @ format_value v"
  using assms unfolding machine_line_def dict_getitem_def
  by (auto split: option.splits)

lemma format_value_cases: "format_value v = (case v of PStr s \<Rightarrow> s | _ \<Rightarrow> repr v)"
  by (cases v) simp_all

section \<open>C1: the types of the fields of the collected record\<close>

text \<open>
  C1 as stated fails. On a 64-bit Linux host the record that \<^verbatim>\<open>get_architecture_info\<close> returns
  has, under the key \<^verbatim>\<open>architecture\<close>, the whole tuple \<^verbatim>\<open>('64bit', 'ELF')\<close> that
  \<^verbatim>\<open>platform.architecture()\<close> returned: that field is not a string.
\<close>

theorem C1_architecture_field_is_a_tuple:
  "fst (get_architecture_info linux_x86_64) = Inr 0 \<and>
   (heap (snd (get_architecture_info linux_x86_64)) ! 0) ''architecture'' =
     Some (PTuple [PStr ''64bit'', PStr ''ELF'']) \<and>
   \<not> field_is_str (heap (snd (get_architecture_info linux_x86_64)) ! 0) ''architecture''"
  by (simp add: get_architecture_info_def linux_x86_64_def field_is_str_def)

text \<open>
  C1, amended. Whenever both platform queries return, \<^verbatim>\<open>get_architecture_info\<close> returns a
  record whose \<^verbatim>\<open>machine\<close> field is the string reported (possibly empty, never
  \<^verbatim>\<open>None\<close>) and whose \<^verbatim>\<open>architecture\<close> field is the pair of the two strings reported,
  the bitness descriptor first.
\<close>

theorem C1_collected_fields:
  assumes "architecture (host w) = Returns (b, l)" and "machine (host w) = Returns m"
  shows "\<exists>r w'. get_architecture_info w = (Inr r, w') \<and> r < length (heap w') \<and>
           (heap w' ! r) ''architecture'' = Some (PTuple [PStr b, PStr l]) \<and>
           (heap w' ! r) ''machine'' = Some (PStr m) \<and>
           field_is_str (heap w' ! r) ''machine''"
  by (simp add: get_architecture_info_ok [OF assms] field_is_str_def)

theorem C1_collected_fields_witness:
  "\<exists>r w'. get_architecture_info linux_x86_64 = (Inr r, w') \<and> r < length (heap w') \<and>
           (heap w' ! r) ''architecture'' = Some (PTuple [PStr ''64bit'', PStr ''ELF'']) \<and>
           (heap w' ! r) ''machine'' = Some (PStr ''x86_64'') \<and>
           field_is_str (heap w' ! r) ''machine''"
  using C1_collected_fields [of linux_x86_64 "''64bit''" "''ELF''" "''x86_64''"]
  by (simp add: linux_x86_64_def)

section \<open>C2: the two lines written\<close>

text \<open>
  C2 as stated fails. The value of the \<^verbatim>\<open>architecture\<close> field on a 64-bit Linux host is the
  tuple \<^verbatim>\<open>('64bit', 'ELF')\<close>; the output of \<^verbatim>\<open>run\<close> contains neither the text of that
  value nor its second component: the field is printed truncated to its first component.
\<close>

theorem C2_linkage_is_not_printed:
  "(heap (snd (run linux_x86_64)) ! 0) ''architecture'' =
     Some (PTuple [PStr ''64bit'', PStr ''ELF'']) \<and>
   \<not> sublist (format_value (PTuple [PStr ''64bit'', PStr ''ELF''])) (stdout (snd (run linux_x86_64))) \<and>
   \<not> sublist ''ELF'' (stdout (snd (run linux_x86_64)))"
  by (simp add: run_returns linux_x86_64_def Fore_GREEN_def Style_RESET_ALL_def ESC_def
      newline_def str_repr_def repr_char_def printable_def backslash_def sublist_code)

text \<open>
  C2, amended. For every record produced by \<^verbatim>\<open>get_architecture_info\<close>, the printing step of
  \<^verbatim>\<open>run\<close> raises nothing and appends exactly two terminated lines to standard output, in
  the order Architecture, Machine: the first is the coloured label followed by the first
  component of the \<^verbatim>\<open>architecture\<close> field, unchanged, the second the coloured label
  followed by the \<^verbatim>\<open>machine\<close> field, unchanged. The number of line terminators
  written is two plus those inside the two values: exactly two lines when the values
  have no line break.
\<close>

theorem C2_two_lines_in_order:
  assumes "get_architecture_info w = (Inr r, w1)"
  shows "\<exists>b l m.
     (heap w1 ! r) ''architecture'' = Some (PTuple [PStr b, PStr l]) \<and>
     (heap w1 ! r) ''machine'' = Some (PStr m) \<and>
     report r w1 =
       (None, w1\<lparr>stdout := stdout w1 @
          (Fore_GREEN @ ''Architecture:'' @ Style_RESET_ALL @ '' '' @ b) @ [newline] @
          (Fore_GREEN @ ''Machine:'' @ Style_RESET_ALL @ '' '' @ m) @ [newline]\<rparr>) \<and>
     count_list
       ((Fore_GREEN @ ''Architecture:'' @ Style_RESET_ALL @ '' '' @ b) @ [newline] @
        (Fore_GREEN @ ''Machine:'' @ Style_RESET_ALL @ '' '' @ m) @ [newline]) newline =
       2 + count_list b newline + count_list m newline"
proof -
  from assms obtain b l m where
    w1: "w1 = w\<lparr>heap := heap w @ [[''architecture'' \<mapsto> PTuple [PStr b, PStr l], ''machine'' \<mapsto> PStr m]]\<rparr>"
    and r: "r = length (heap w)"
    by (rule get_architecture_info_returns)
  have a: "(heap w1 ! r) ''architecture'' = Some (PTuple [PStr b, PStr l])"
    and m: "(heap w1 ! r) ''machine'' = Some (PStr m)"
    by (simp_all add: w1 r)
  have n: "count_list
       ((Fore_GREEN @ ''Architecture:'' @ Style_RESET_ALL @ '' '' @ b) @ [newline] @
        (Fore_GREEN @ ''Machine:'' @ Style_RESET_ALL @ '' '' @ m) @ [newline]) newline =
       2 + count_list b newline + count_list m newline"
    by (simp add: Fore_GREEN_def Style_RESET_ALL_def ESC_def newline_def)
  from a m n report_pair [OF a m] show ?thesis by blast
qed

theorem C2_two_lines_in_order_witness:
  "\<exists>b l m.
     (heap (snd (get_architecture_info linux_x86_64)) ! 0) ''architecture'' = Some (PTuple [PStr b, PStr l]) \<and>
     (heap (snd (get_architecture_info linux_x86_64)) ! 0) ''machine'' = Some (PStr m) \<and>
     report 0 (snd (get_architecture_info linux_x86_64)) =
       (None, (snd (get_architecture_info linux_x86_64))\<lparr>stdout := stdout (snd (get_architecture_info linux_x86_64)) @
          (Fore_GREEN @ ''Architecture:'' @ Style_RESET_ALL @ '' '' @ b) @ [newline] @
          (Fore_GREEN @ ''Machine:'' @ Style_RESET_ALL @ '' '' @ m) @ [newline]\<rparr>) \<and>
     count_list
       ((Fore_GREEN @ ''Architecture:'' @ Style_RESET_ALL @ '' '' @ b) @ [newline] @
        (Fore_GREEN @ ''Machine:'' @ Style_RESET_ALL @ '' '' @ m) @ [newline]) newline =
       2 + count_list b newline + count_list m newline"
proof -
  have "get_architecture_info linux_x86_64 = (Inr 0, snd (get_architecture_info linux_x86_64))"
    by (simp add: get_architecture_info_def linux_x86_64_def)
  from C2_two_lines_in_order [OF this] show ?thesis .
qed

section \<open>C3: the x86-64 scenario\<close>

text \<open>
  C3. On a host whose queries report the bitness \<^verbatim>\<open>64bit\<close> (with any linkage) and the machine
  type \<^verbatim>\<open>x86_64\<close>, \<^verbatim>\<open>get_architecture_info\<close> returns a record that carries the bitness
  descriptor \<^verbatim>\<open>64bit\<close> (component 0 of its \<^verbatim>\<open>architecture\<close> field) and the machine label
  \<^verbatim>\<open>x86_64\<close>, and \<^verbatim>\<open>run\<close> raises nothing and writes two lines which a terminal shows as
  \<^verbatim>\<open>Architecture: 64bit\<close> and \<^verbatim>\<open>Machine: x86_64\<close>.
\<close>

theorem C3_x86_64_scenario:
  assumes "architecture (host w) = Returns (''64bit'', l)" and "machine (host w) = Returns ''x86_64''"
  shows "(\<exists>r w1.
       get_architecture_info w = (Inr r, w1) \<and>
       (heap w1 ! r) ''architecture'' = Some (PTuple [PStr ''64bit'', PStr l]) \<and>
       (heap w1 ! r) ''machine'' = Some (PStr ''x86_64'')) \<and>
     getitem (PTuple [PStr ''64bit'', PStr l]) 0 = Inr (PStr ''64bit'') \<and>
     fst (run w) = None \<and>
     stdout (snd (run w)) = stdout w @
        (Fore_GREEN @ ''Architecture:'' @ Style_RESET_ALL @ '' 64bit'') @ [newline] @
        (Fore_GREEN @ ''Machine:'' @ Style_RESET_ALL @ '' x86_64'') @ [newline] \<and>
     displayed ((Fore_GREEN @ ''Architecture:'' @ Style_RESET_ALL @ '' 64bit'') @ [newline] @
        (Fore_GREEN @ ''Machine:'' @ Style_RESET_ALL @ '' x86_64'') @ [newline]) =
       ''Architecture: 64bit'' @ [newline] @ ''Machine: x86_64'' @ [newline]"
  by (simp add: get_architecture_info_ok [OF assms] run_returns [OF assms] seq_position_def
      Fore_GREEN_def Style_RESET_ALL_def ESC_def newline_def)

theorem C3_x86_64_scenario_witness:
  "fst (run linux_x86_64) = None \<and>
   stdout (snd (run linux_x86_64)) =
        (Fore_GREEN @ ''Architecture:'' @ Style_RESET_ALL @ '' 64bit'') @ [newline] @
        (Fore_GREEN @ ''Machine:'' @ Style_RESET_ALL @ '' x86_64'') @ [newline]"
  using C3_x86_64_scenario [of linux_x86_64 "''ELF''"]
  by (simp add: linux_x86_64_def)

section \<open>C4: the printing step on well-formed records\<close>



section \<open>C5: an empty machine label\<close>

text \<open>
  C5. When the machine-type query returns the empty string (and the bitness query
  returns), \<^verbatim>\<open>get_architecture_info\<close> returns a record, and \<^verbatim>\<open>run\<close> raises nothing and writes
  as its second line the coloured label followed by a space and nothing else, which a
  terminal shows as \<^verbatim>\<open>Machine: \<close>.
\<close>

theorem C5_empty_machine_label:
  assumes "architecture (host w) = Returns (b, l)" and "machine (host w) = Returns []"
  shows "(\<exists>r w1. get_architecture_info w = (Inr r, w1) \<and>
            (heap w1 ! r) ''machine'' = Some (PStr [])) \<and>
     fst (run w) = None \<and>
     stdout (snd (run w)) = stdout w @
        (Fore_GREEN @ ''Architecture:'' @ Style_RESET_ALL @ '' '' @ b) @ [newline] @
        (Fore_GREEN @ ''Machine:'' @ Style_RESET_ALL @ '' '') @ [newline] \<and>
     displayed (Fore_GREEN @ ''Machine:'' @ Style_RESET_ALL @ '' '') = ''Machine: ''"
  by (simp add: get_architecture_info_ok [OF assms] run_returns [OF assms]
      Fore_GREEN_def Style_RESET_ALL_def ESC_def)

theorem C5_empty_machine_label_witness:
  "fst (run unknown_machine) = None \<and>
   stdout (snd (run unknown_machine)) =
        (Fore_GREEN @ ''Architecture:'' @ Style_RESET_ALL @ '' 32bit'') @ [newline] @
        (Fore_GREEN @ ''Machine:'' @ Style_RESET_ALL @ '' '') @ [newline]"
  using C5_empty_machine_label [of unknown_machine "''32bit''" "[]"]
  by (simp add: unknown_machine_def)

section \<open>C6: the collector is deterministic\<close>

text \<open>
  C6. What a caller of \<^verbatim>\<open>get_architecture_info\<close> observes (the exception raised, or the
  field values of the record returned) is a function of the host alone: two calls in
  states with the same host, whatever their heaps and outputs, observe the same. In
  particular a second call made right after the first, or after a whole \<^verbatim>\<open>run\<close>,
  yields a record with field values identical to those of the first.
\<close>

theorem C6_collect_is_deterministic:
  assumes "host w' = host w"
  shows "collected w' = collected w \<and>
         collected (snd (get_architecture_info w)) = collected w \<and>
         collected (snd (run w)) = collected w"
  by (intro conjI collected_host) (simp_all add: assms host_get_architecture_info host_run)

theorem C6_collect_is_deterministic_witness:
  "collected (linux_x86_64\<lparr>stdout := ''earlier output''\<rparr>) = collected linux_x86_64 \<and>
   collected (snd (get_architecture_info linux_x86_64)) = collected linux_x86_64 \<and>
   collected (snd (run linux_x86_64)) = collected linux_x86_64 \<and>
   collected linux_x86_64 =
     Inr [''architecture'' \<mapsto> PTuple [PStr ''64bit'', PStr ''ELF''], ''machine'' \<mapsto> PStr ''x86_64'']"
  using C6_collect_is_deterministic [of "linux_x86_64\<lparr>stdout := ''earlier output''\<rparr>" linux_x86_64]
    collected_returns [of linux_x86_64 "''64bit''" "''ELF''" "''x86_64''"]
  by (simp add: linux_x86_64_def)

section \<open>C7: the fields as reported, and no mutation\<close>

text \<open>
  C7 as stated fails. On a host whose machine type cannot be determined the query
  \<^verbatim>\<open>platform.machine()\<close> returns the empty string; the collector succeeds and stores it:
  the \<^verbatim>\<open>machine\<close> field of the record is empty.
\<close>

theorem C7_machine_field_can_be_empty:
  "fst (get_architecture_info unknown_machine) = Inr 0 \<and>
   (heap (snd (get_architecture_info unknown_machine)) ! 0) ''machine'' = Some (PStr [])"
  by (simp add: get_architecture_info_def unknown_machine_def)

text \<open>
  C7, amended. Whenever both queries return, the record holds under \<^verbatim>\<open>machine\<close> exactly
  the string and under \<^verbatim>\<open>architecture\<close> exactly the pair of strings that the platform
  reported (empty where the platform reports them empty). The collector never mutates a
  record returned before: the record is a new object, every object already on the heap
  is as it was, and neither the host nor the output changes; a failing call changes
  nothing at all.
\<close>

theorem C7_fields_as_reported_and_no_mutation:
  assumes "get_architecture_info w = (res, w')"
  shows "take (length (heap w)) (heap w') = heap w \<and> host w' = host w \<and> stdout w' = stdout w \<and>
    (case res of
       Inl e \<Rightarrow> w' = w
     | Inr r \<Rightarrow>
         r = length (heap w) \<and> length (heap w') = Suc r \<and>
         (\<exists>b l m. architecture (host w) = Returns (b, l) \<and> machine (host w) = Returns m \<and>
            heap w' ! r = [''architecture'' \<mapsto> PTuple [PStr b, PStr l], ''machine'' \<mapsto> PStr m]))"
proof (cases res)
  case (Inl e)
  with assms have "w' = w" by (simp add: get_architecture_info_raises)
  with Inl show ?thesis by simp
next
  case (Inr r)
  with assms have "get_architecture_info w = (Inr r, w')" by simp
  then obtain b l m where "architecture (host w) = Returns (b, l)" "machine (host w) = Returns m"
    "r = length (heap w)"
    "w' = w\<lparr>heap := heap w @ [[''architecture'' \<mapsto> PTuple [PStr b, PStr l], ''machine'' \<mapsto> PStr m]]\<rparr>"
    by (rule get_architecture_info_returns)
  with Inr show ?thesis by simp
qed

theorem C7_fields_as_reported_and_no_mutation_witness:
  "fst (get_architecture_info (snd (get_architecture_info unknown_machine))) = Inr 1 \<and>
   take 1 (heap (snd (get_architecture_info (snd (get_architecture_info unknown_machine))))) =
     heap (snd (get_architecture_info unknown_machine)) \<and>
   heap (snd (get_architecture_info (snd (get_architecture_info unknown_machine)))) ! 1 =
     [''architecture'' \<mapsto> PTuple [PStr ''32bit'', PStr []], ''machine'' \<mapsto> PStr []]"
proof -
  define w1 where "w1 = snd (get_architecture_info unknown_machine)"
  have l: "length (heap w1) = 1"
    and h: "architecture (host w1) = Returns (''32bit'', [])" "machine (host w1) = Returns []"
    by (simp_all add: w1_def get_architecture_info_def unknown_machine_def)
  have g: "get_architecture_info w1 =
      (Inr 1, w1\<lparr>heap := heap w1 @
         [[''architecture'' \<mapsto> PTuple [PStr ''32bit'', PStr []], ''machine'' \<mapsto> PStr []]]\<rparr>)"
    by (simp add: get_architecture_info_ok [OF h] l)
  from C7_fields_as_reported_and_no_mutation [OF g] h l
  show ?thesis
    unfolding w1_def [symmetric] by (simp add: g)
qed

section \<open>C8: the colour of the label and of the value\<close>

text \<open>
  C8. Every line that the printing step of \<^verbatim>\<open>run\<close> writes is the colour code \<^verbatim>\<open>ESC[32m\<close>
  (green foreground), the label, the reset code \<^verbatim>\<open>ESC[0m\<close>, a space and then the value
  of the field the line is for: component 0 of the \<^verbatim>\<open>architecture\<close> field on the first
  line, the \<^verbatim>\<open>machine\<close> field on the second, a string as it is and any other value as
  its \<^verbatim>\<open>repr\<close>. So the colour code precedes the label and the reset code precedes the
  value. The step writes nothing only when the first line cannot be built, and the first
  line alone only when the second cannot be built.
\<close>

theorem C8_label_coloured_value_reset:
  assumes "report r w = (res, w')"
  shows "Fore_GREEN = [CHR 0x1B] @ ''[32m'' \<and> Style_RESET_ALL = [CHR 0x1B] @ ''[0m'' \<and>
    ((\<exists>e. res = Some e \<and> architecture_line (heap w ! r) = Inl e \<and> stdout w' = stdout w) \<or>
     (\<exists>e a v. res = Some e \<and> machine_line (heap w ! r) = Inl e \<and>
        (heap w ! r) ''architecture'' = Some a \<and> getitem a 0 = Inr v \<and>
        stdout w' = stdout w @
          (Fore_GREEN @ ''Architecture:'' @ Style_RESET_ALL @ '' '' @
             (case v of PStr s \<Rightarrow> s | _ \<Rightarrow> repr v)) @ [newline]) \<or>
     (\<exists>a v v'. res = None \<and>
        (heap w ! r) ''architecture'' = Some a \<and> getitem a 0 = Inr v \<and>
        (heap w ! r) ''machine'' = Some v' \<and>
        stdout w' = stdout w @
          (Fore_GREEN @ ''Architecture:'' @ Style_RESET_ALL @ '' '' @
             (case v of PStr s \<Rightarrow> s | _ \<Rightarrow> repr v)) @ [newline] @
          (Fore_GREEN @ ''Machine:'' @ Style_RESET_ALL @ '' '' @
             (case v' of PStr s \<Rightarrow> s | _ \<Rightarrow> repr v')) @ [newline]))"
proof -
  have codes: "Fore_GREEN = [CHR 0x1B] @ ''[32m''" "Style_RESET_ALL = [CHR 0x1B] @ ''[0m''"
    by (simp_all add: Fore_GREEN_def Style_RESET_ALL_def ESC_def)
  show ?thesis
  proof (cases "architecture_line (heap w ! r)")
    case (Inl e)
    with assms have "res = Some e" "w' = w"
      by (simp_all add: report_def)
    with Inl codes show ?thesis by simp
  next
    case l1: (Inr l1)
    then obtain a v where a: "(heap w ! r) ''architecture'' = Some a" "getitem a 0 = Inr v"
      and v: "l1 = Fore_GREEN @ ''Architecture:'' @ Style_RESET_ALL @ '' '' @
                (case v of PStr s \<Rightarrow> s | _ \<Rightarrow> repr v)"
      by (rule architecture_line_Inr) (simp add: format_value_cases)
    show ?thesis
    proof (cases "machine_line (heap w ! r)")
      case (Inl e)
      with assms l1 have "res = Some e" "w' = print l1 w"
        by (simp_all add: report_def heap_print)
      then have "res = Some e \<and> stdout w' = stdout w @
          (Fore_GREEN @ ''Architecture:'' @ Style_RESET_ALL @ '' '' @
             (case v of PStr s \<Rightarrow> s | _ \<Rightarrow> repr v)) @ [newline]"
        by (simp add: print_def v)
      with codes Inl a show ?thesis by blast
    next
      case l2: (Inr l2)
      then obtain v' where m: "(heap w ! r) ''machine'' = Some v'"
        and v': "l2 = Fore_GREEN @ ''Machine:'' @ Style_RESET_ALL @ '' '' @
                  (case v' of PStr s \<Rightarrow> s | _ \<Rightarrow> repr v')"
        by (rule machine_line_Inr) (simp add: format_value_cases)
      from assms l1 l2 have "res = None" "w' = print l2 (print l1 w)"
        by (simp_all add: report_def heap_print)
      then have "res = None \<and> stdout w' = stdout w @
          (Fore_GREEN @ ''Architecture:'' @ Style_RESET_ALL @ '' '' @
             (case v of PStr s \<Rightarrow> s | _ \<Rightarrow> repr v)) @ [newline] @
          (Fore_GREEN @ ''Machine:'' @ Style_RESET_ALL @ '' '' @
             (case v' of PStr s \<Rightarrow> s | _ \<Rightarrow> repr v')) @ [newline]"
        by (simp add: print_def v v')
      with codes a m show ?thesis by blast
    qed
  qed
qed

theorem C8_label_coloured_value_reset_witness:
  "stdout (snd (report 0 (snd (get_architecture_info linux_x86_64)))) =
     (Fore_GREEN @ ''Architecture:'' @ Style_RESET_ALL @ '' 64bit'') @ [newline] @
     (Fore_GREEN @ ''Machine:'' @ Style_RESET_ALL @ '' x86_64'') @ [newline]"
proof -
  define w1 where "w1 = snd (get_architecture_info linux_x86_64)"
  have s: "stdout w1 = []"
    and a: "(heap w1 ! 0) ''architecture'' = Some (PTuple [PStr ''64bit'', PStr ''ELF''])"
    and m: "(heap w1 ! 0) ''machine'' = Some (PStr ''x86_64'')"
    by (simp_all add: w1_def get_architecture_info_def linux_x86_64_def)
  have n: "fst (report 0 w1) = None"
    by (simp add: report_pair [OF a m])
  have g: "getitem (PTuple [PStr ''64bit'', PStr ''ELF'']) 0 = Inr (PStr ''64bit'')"
    by (simp add: seq_position_def)
  have "report 0 w1 = (fst (report 0 w1), snd (report 0 w1))"
    by simp
  from C8_label_coloured_value_reset [OF this] n s a m g show ?thesis
    unfolding w1_def [symmetric] by auto
qed

section \<open>C9: the pair is stored, its first component printed\<close>

text \<open>
  C9. The \<^verbatim>\<open>architecture\<close> field of the record returned holds the entire pair that the
  bitness query returned, bitness and linkage. \<^verbatim>\<open>run\<close> raises nothing and prints the
  first component only: its output does not depend on the linkage, so two hosts that
  differ in nothing but the linkage produce the same output.
\<close>

theorem C9_pair_stored_first_component_printed:
  assumes "architecture (host w) = Returns (b, l)" and "machine (host w) = Returns m"
    and "architecture (host w') = Returns (b, l')" and "machine (host w') = Returns m"
    and "stdout w' = stdout w"
  shows "(\<exists>r w1. get_architecture_info w = (Inr r, w1) \<and>
            (heap w1 ! r) ''architecture'' = Some (PTuple [PStr b, PStr l])) \<and>
     fst (run w) = None \<and>
     stdout (snd (run w)) = stdout w @
        (Fore_GREEN @ ''Architecture:'' @ Style_RESET_ALL @ '' '' @ b) @ [newline] @
        (Fore_GREEN @ ''Machine:'' @ Style_RESET_ALL @ '' '' @ m) @ [newline] \<and>
     stdout (snd (run w')) = stdout (snd (run w))"
  by (simp add: get_architecture_info_ok [OF assms(1,2)] run_returns [OF assms(1,2)]
      run_returns [OF assms(3,4)] assms(5))

theorem C9_pair_stored_first_component_printed_witness:
  "(\<exists>r w1. get_architecture_info linux_x86_64 = (Inr r, w1) \<and>
            (heap w1 ! r) ''architecture'' = Some (PTuple [PStr ''64bit'', PStr ''ELF''])) \<and>
   stdout (snd (run linux_x86_64)) =
        (Fore_GREEN @ ''Architecture:'' @ Style_RESET_ALL @ '' 64bit'') @ [newline] @
        (Fore_GREEN @ ''Machine:'' @ Style_RESET_ALL @ '' x86_64'') @ [newline] \<and>
   stdout (snd (run windows_amd64)) = stdout (snd (run linux_x86_64))"
  using C9_pair_stored_first_component_printed
    [of linux_x86_64 "''64bit''" "''ELF''" "''x86_64''" windows_amd64 "''WindowsPE''"]
  by (simp add: linux_x86_64_def windows_amd64_def)

section \<open>C10: the subscript is in bounds\<close>

text \<open>
  C10. For every record that \<^verbatim>\<open>get_architecture_info\<close> returns, the \<^verbatim>\<open>architecture\<close> field is
  a tuple of length two, so index 0 denotes a position of it and the subscript
  \<^verbatim>\<open>info["architecture"][0]\<close> returns its first component: the \<^verbatim>\<open>IndexError\<close> branch is
  not taken, and neither the printing step on that record nor \<^verbatim>\<open>run\<close> raises.
\<close>

theorem C10_subscript_in_bounds:
  assumes "get_architecture_info w = (Inr r, w1)"
  shows "\<exists>xs. (heap w1 ! r) ''architecture'' = Some (PTuple xs) \<and> length xs = 2 \<and>
           seq_position 0 (length xs) = Some 0 \<and>
           getitem (PTuple xs) 0 = Inr (xs ! 0) \<and>
           fst (report r w1) = None \<and> fst (run w) = None"
proof -
  from assms obtain b l m where
    w1: "w1 = w\<lparr>heap := heap w @ [[''architecture'' \<mapsto> PTuple [PStr b, PStr l], ''machine'' \<mapsto> PStr m]]\<rparr>"
    and r: "r = length (heap w)"
    by (rule get_architecture_info_returns)
  have a: "(heap w1 ! r) ''architecture'' = Some (PTuple [PStr b, PStr l])"
    and m: "(heap w1 ! r) ''machine'' = Some (PStr m)"
    by (simp_all add: w1 r)
  have n: "fst (report r w1) = None"
    by (simp add: report_pair [OF a m])
  have "run w = report r w1"
    by (simp add: run_def assms)
  with n have "fst (run w) = None" by simp
  with a n show ?thesis
    by (simp add: seq_position_def)
qed

theorem C10_subscript_in_bounds_witness:
  "\<exists>xs. (heap (snd (get_architecture_info linux_x86_64)) ! 0) ''architecture'' = Some (PTuple xs) \<and>
         length xs = 2 \<and> getitem (PTuple xs) 0 = Inr (xs ! 0) \<and>
         fst (run linux_x86_64) = None"
proof -
  have "get_architecture_info linux_x86_64 = (Inr 0, snd (get_architecture_info linux_x86_64))"
    by (simp add: get_architecture_info_def linux_x86_64_def)
  from C10_subscript_in_bounds [OF this] show ?thesis
    by blast
qed

end
